theory Spec2Isabelle
  imports Complex_Main
begin

section \<open>Values of the host language\<close>

text \<open>
  The provider in \<^verbatim>\<open>src/app/admin/layout.tsx\<close> (the second document of that file,
  \<^verbatim>\<open>AuthProvider\<close>) stores whatever the Token Store and the identity service hand
  to it: the TypeScript interface \<^verbatim>\<open>User\<close> is erased at run time, and the code
  decides by truthiness (\<^verbatim>\<open>!token\<close>, \<^verbatim>\<open>if (storedUser)\<close>, \<^verbatim>\<open>!!user\<close>,
  \<^verbatim>\<open>data.details?.[0] || null\<close>). Values are therefore modelled as JavaScript
  values: \<^verbatim>\<open>undefined\<close>, \<^verbatim>\<open>null\<close> and the JSON values.
\<close>

datatype jsval =
    JUndefined
  | JNull
  | JBool bool
  | JNum real
  | JStr string
  | JArr "jsval list"
  | JObj "(string \<times> jsval) list"

text \<open>Truthiness (\<^verbatim>\<open>!!v\<close>). A JSON number is never NaN.\<close>

fun js_truthy :: "jsval \<Rightarrow> bool" where
  "js_truthy JUndefined = False"
| "js_truthy JNull = False"
| "js_truthy (JBool b) = b"
| "js_truthy (JNum r) = (r \<noteq> 0)"
| "js_truthy (JStr s) = (s \<noteq> [])"
| "js_truthy (JArr xs) = True"
| "js_truthy (JObj kvs) = True"

text \<open>
  Property read \<^verbatim>\<open>v.k\<close> on a value that is neither \<^verbatim>\<open>null\<close> nor
  \<^verbatim>\<open>undefined\<close>. In an object built by \<^verbatim>\<open>JSON.parse\<close> the last occurrence of
  a key wins. Primitives and arrays have no property of the names read here
  (\<^verbatim>\<open>details\<close>, \<^verbatim>\<open>user_role\<close>).
\<close>

fun js_prop :: "jsval \<Rightarrow> string \<Rightarrow> jsval" where
  "js_prop (JObj kvs) k = (case map_of (rev kvs) k of None \<Rightarrow> JUndefined | Some v \<Rightarrow> v)"
| "js_prop v k = JUndefined"

text \<open>
  The optional element read \<^verbatim>\<open>v?.[0]\<close>: \<^verbatim>\<open>undefined\<close> on \<^verbatim>\<open>null\<close> and
  \<^verbatim>\<open>undefined\<close>, the first element of an array, the first character of a string,
  the property \<^verbatim>\<open>"0"\<close> of an object.
\<close>

fun js_opt_index0 :: "jsval \<Rightarrow> jsval" where
  "js_opt_index0 (JArr xs) = (case xs of [] \<Rightarrow> JUndefined | x # _ \<Rightarrow> x)"
| "js_opt_index0 (JStr s) = (case s of [] \<Rightarrow> JUndefined | c # _ \<Rightarrow> JStr [c])"
| "js_opt_index0 (JObj kvs) = js_prop (JObj kvs) ''0''"
| "js_opt_index0 v = JUndefined"

text \<open>\<^verbatim>\<open>a || null\<close>.\<close>

definition js_or_null :: "jsval \<Rightarrow> jsval" where
  "js_or_null v = (if js_truthy v then v else JNull)"

text \<open>Reading a property of \<^verbatim>\<open>null\<close> or \<^verbatim>\<open>undefined\<close> throws a TypeError;
  the optional read \<^verbatim>\<open>v?.k\<close> gives \<^verbatim>\<open>undefined\<close> there.\<close>

definition js_nullish :: "jsval \<Rightarrow> bool" where
  "js_nullish v = (v = JNull \<or> v = JUndefined)"

definition js_opt_prop :: "jsval \<Rightarrow> string \<Rightarrow> jsval" where
  "js_opt_prop v k = (if js_nullish v then JUndefined else js_prop v k)"

text \<open>An \<^verbatim>\<open>Error\<close> object, by its message.\<close>

datatype js_error = Error string

section \<open>The Token Store\<close>

text \<open>
  The module \<^verbatim>\<open>@/lib/auth\<close> is imported by the provider but is not part of the
  sources at hand. Its persisted record is modelled from the specification
  (section 3, Persisted Token Record: token string, remember-me flag, cached user
  snapshot, stored keyed identity id). \<^verbatim>\<open>user_id_item\<close> is the raw string that
  \<^verbatim>\<open>localStorage.getItem("user_id")\<close> returns (\<open>None\<close> for \<^verbatim>\<open>null\<close>).
\<close>

record token_store =
  token :: "string option"
  remember_me :: bool
  cached_user :: jsval
  user_id_item :: "string option"

text \<open>Modelled from the spec: \<^verbatim>\<open>getToken() -> token|null\<close> of \<^verbatim>\<open>@/lib/auth\<close>, which
  is absent from the sources; it reads the persisted token.\<close>

definition getToken :: "token_store \<Rightarrow> string option" where
  "getToken st = token st"

text \<open>Modelled from the spec: \<^verbatim>\<open>getRememberMe() -> bool\<close> of \<^verbatim>\<open>@/lib/auth\<close>, absent
  from the sources; it reads the persisted remember-me flag.\<close>

definition getRememberMe :: "token_store \<Rightarrow> bool" where
  "getRememberMe st = remember_me st"

text \<open>Modelled from the spec: \<^verbatim>\<open>getUser() -> UserRecord|null\<close> of \<^verbatim>\<open>@/lib/auth\<close>
  (imported as \<^verbatim>\<open>getUserFromStorage\<close>), absent from the sources; it reads the cached
  user record.\<close>

definition getUserFromStorage :: "token_store \<Rightarrow> jsval" where
  "getUserFromStorage st = cached_user st"

text \<open>Modelled from the spec: \<^verbatim>\<open>removeToken()\<close> of \<^verbatim>\<open>@/lib/auth\<close>, absent from the
  sources; it clears the persisted token.\<close>

definition removeToken :: "token_store \<Rightarrow> token_store" where
  "removeToken st = st\<lparr>token := None\<rparr>"

text \<open>Modelled from the spec: \<^verbatim>\<open>removeUser()\<close> of \<^verbatim>\<open>@/lib/auth\<close>, absent from the
  sources; it clears the cached user record.\<close>

definition removeUser :: "token_store \<Rightarrow> token_store" where
  "removeUser st = st\<lparr>cached_user := JNull\<rparr>"

text \<open>Truthiness of a value that is a string or \<^verbatim>\<open>null\<close> (\<open>None\<close>): the empty
  string is falsy.\<close>

definition str_truthy :: "string option \<Rightarrow> bool" where
  "str_truthy t = (case t of None \<Rightarrow> False | Some x \<Rightarrow> x \<noteq> [])"

text \<open>Modelled from the spec: \<^verbatim>\<open>isAuthenticated() -> bool\<close> of \<^verbatim>\<open>@/lib/auth\<close>, absent
  from the sources. Section 4.2 decides the mount on whether the Token Store holds a
  token, and the caller's own comment reads "Quick check for token first".\<close>

definition isAuthenticated :: "token_store \<Rightarrow> bool" where
  "isAuthenticated st = str_truthy (getToken st)"

section \<open>The environment of one call\<close>

text \<open>
  What the provider calls but does not define. A network call either rejects
  (\<open>NetworkError\<close>) or resolves to a response; \<open>body\<close> is what
  \<^verbatim>\<open>response.json()\<close> resolves to, \<open>None\<close> when it rejects.
\<close>

record response =
  status :: nat
  body :: "jsval option"

text \<open>\<^verbatim>\<open>response.ok\<close> of the Fetch standard: a status from 200 to 299.\<close>

definition response_ok :: "response \<Rightarrow> bool" where
  "response_ok r = (200 \<le> status r \<and> status r \<le> 299)"

datatype fetch_outcome = NetworkError | Response response

text \<open>
  The two requests of the provider: \<^verbatim>\<open>POST ${API_URL}/logout\<close> (line 124) and
  \<^verbatim>\<open>GET ${API_URL}/GetUser/?id=${userId}\<close> (line 200), each with the bearer token.
  At line 124 the URL is interpolated unchecked, so it may hold \<^verbatim>\<open>undefined\<close>.
\<close>

datatype request =
    LogoutRequest "string option" string
  | GetUserRequest string jsval string

text \<open>What \<^verbatim>\<open>loginUser\<close> resolves to: \<^verbatim>\<open>{user, token}\<close>.\<close>

record login_data =
  ld_user :: jsval
  ld_token :: string

text \<open>
  The steps of the local cleanup of \<^verbatim>\<open>logout\<close> (lines 137 to 141) that call out of
  the provider and so may throw into the handler of line 143. The reads of the Token
  Store return a value, as their signatures in section 6 of the specification say,
  and a React state setter does not throw.
\<close>

datatype cleanup_step = StepRemoveToken | StepRemoveUser | StepRouterPush

record env =
  window_defined :: bool
    \<comment> \<open>\<^verbatim>\<open>typeof window !== "undefined"\<close>\<close>
  api_url :: "string option"
    \<comment> \<open>\<^verbatim>\<open>process.env.NEXT_PUBLIC_API_URL\<close>\<close>
  json_parse :: "string \<Rightarrow> jsval option"
    \<comment> \<open>\<^verbatim>\<open>JSON.parse\<close>; \<open>None\<close> when it throws\<close>
  fetch :: "request \<Rightarrow> fetch_outcome"
    \<comment> \<open>the transport and the remote service\<close>
  identity_login :: "string \<Rightarrow> string \<Rightarrow> bool \<Rightarrow> js_error + login_data"
    \<comment> \<open>the verdict of the identity service on a login\<close>
  token_expiration_info :: "token_store \<Rightarrow> jsval"
    \<comment> \<open>\<^verbatim>\<open>getTokenExpirationInfo() -> info|null\<close> of \<^verbatim>\<open>@/lib/auth\<close>, absent from the sources\<close>
  cleanup_fault :: "cleanup_step option"
    \<comment> \<open>the step of the local cleanup that throws, if one does\<close>

text \<open>Modelled from the spec: \<^verbatim>\<open>loginUser(email, password, rememberMe) -> {user, token}\<close>
  of \<^verbatim>\<open>@/lib/auth\<close>, absent from the sources. Section 4.2: on success the token, the
  remember-me flag and the user snapshot are persisted; section 7 (a): a rejected
  login changes no state.\<close>

definition loginUser ::
  "env \<Rightarrow> string \<Rightarrow> string \<Rightarrow> bool \<Rightarrow> token_store \<Rightarrow> js_error + login_data \<times> token_store"
where
  "loginUser e email password rememberMe st =
     (case identity_login e email password rememberMe of
        Inl err \<Rightarrow> Inl err
      | Inr d \<Rightarrow> Inr (d, st\<lparr>token := Some (ld_token d), remember_me := rememberMe,
                            cached_user := ld_user d\<rparr>))"

section \<open>The provider's state\<close>

text \<open>
  Everything a call does besides changing a state variable is an event: a network
  request, a navigation, a scheduled navigation, a call of \<^verbatim>\<open>loginUser\<close>. The
  state setters are events too, so that the order of the writes of one call can be
  read off the log; so is a write to the Token Store, with the store it leaves.
  Console output is left out. The effect of lines 109 to 116 is
  \<^verbatim>\<open>tokenInfo_effect\<close> below: React runs it after a render in which
  \<^verbatim>\<open>user\<close> changed, at a moment that the provider does not decide, so the
  operations do not call it and their logs hold the provider's own calls only.
\<close>

datatype event =
    SetUserState jsval
  | SetLoading bool
  | SetTokenInfo jsval
  | SetMounted bool
  | SetStore token_store
  | Fetch request
  | RouterPush string
  | SetTimeoutPush nat string
  | CallLoginUser string string bool

record session =
  user :: jsval
  loading :: bool
  mounted :: bool
  tokenInfo :: jsval
  store :: token_store
  events :: "event list"

text \<open>The \<^verbatim>\<open>useState\<close> initial values of lines 68 to 71, over a given Token Store.\<close>

definition initial_session :: "token_store \<Rightarrow> session" where
  "initial_session st =
     \<lparr>user = JNull, loading = True, mounted = False, tokenInfo = JNull,
      store = st, events = []\<rparr>"

text \<open>What an event does to the state variables and to the Token Store.\<close>

fun apply_event :: "event \<Rightarrow> session \<Rightarrow> session" where
  "apply_event (SetUserState v) s = s\<lparr>user := v\<rparr>"
| "apply_event (SetLoading b) s = s\<lparr>loading := b\<rparr>"
| "apply_event (SetTokenInfo v) s = s\<lparr>tokenInfo := v\<rparr>"
| "apply_event (SetMounted b) s = s\<lparr>mounted := b\<rparr>"
| "apply_event (SetStore st) s = s\<lparr>store := st\<rparr>"
| "apply_event (Fetch r) s = s"
| "apply_event (RouterPush p) s = s"
| "apply_event (SetTimeoutPush ms p) s = s"
| "apply_event (CallLoginUser em pw rm) s = s"

definition step :: "event \<Rightarrow> session \<Rightarrow> session" where
  "step ev s = (apply_event ev s)\<lparr>events := events s @ [ev]\<rparr>"

definition setUserState :: "jsval \<Rightarrow> session \<Rightarrow> session" where
  "setUserState v = step (SetUserState v)"

definition setLoading :: "bool \<Rightarrow> session \<Rightarrow> session" where
  "setLoading b = step (SetLoading b)"

definition setTokenInfo :: "jsval \<Rightarrow> session \<Rightarrow> session" where
  "setTokenInfo v = step (SetTokenInfo v)"

definition setMounted :: "bool \<Rightarrow> session \<Rightarrow> session" where
  "setMounted b = step (SetMounted b)"

definition setStore :: "token_store \<Rightarrow> session \<Rightarrow> session" where
  "setStore st = step (SetStore st)"

text \<open>The states a call goes through, one per event, from the state it starts in.\<close>

fun states_during :: "session \<Rightarrow> event list \<Rightarrow> session list" where
  "states_during s [] = [s]"
| "states_during s (ev # evs) = s # states_during (step ev s) evs"


section \<open>The session policy\<close>

text \<open>\<^verbatim>\<open>getSessionTimeout\<close>, lines 154 to 164: minutes, chosen by the persisted flag.\<close>

definition getSessionTimeout :: "token_store \<Rightarrow> nat" where
  "getSessionTimeout st =
     (let rememberMe = getRememberMe st
      in if rememberMe then 14 * 24 * 60 else 2 * 60)"

section \<open>logout\<close>

text \<open>
  Lines 122 to 135: with a truthy token the logout request is sent. Its response is
  not read, and its rejection is caught at line 132 and only logged, so both
  outcomes continue alike.
\<close>

definition logout_notify :: "env \<Rightarrow> session \<Rightarrow> session" where
  "logout_notify e s =
     (case getToken (store s) of
        None \<Rightarrow> s
      | Some t \<Rightarrow>
          if t = [] then s
          else (case fetch e (LogoutRequest (api_url e) t) of
                  NetworkError \<Rightarrow> step (Fetch (LogoutRequest (api_url e) t)) s
                | Response r \<Rightarrow> step (Fetch (LogoutRequest (api_url e) t)) s))"

text \<open>
  Lines 118 to 147. A step of the local cleanup that throws leaves the steps before it
  done and makes \<^verbatim>\<open>logout\<close> return \<^verbatim>\<open>false\<close> (handler of line 143).
\<close>

definition logout :: "env \<Rightarrow> session \<Rightarrow> bool \<times> session" where
  "logout e s =
     (let s1 = logout_notify e s
      in if cleanup_fault e = Some StepRemoveToken then (False, s1)
         else
           let s2 = setStore (removeToken (store s1)) s1
           in if cleanup_fault e = Some StepRemoveUser then (False, s2)
              else
                let s3 = setStore (removeUser (store s2)) s2;
                    s4 = setUserState JNull s3;
                    s5 = setTokenInfo JNull s4
                in if cleanup_fault e = Some StepRouterPush then (False, s5)
                   else (True, step (RouterPush ''/login'') s5))"

text \<open>\<^verbatim>\<open>handleSessionTimeout\<close>, lines 149 to 151: the result of \<^verbatim>\<open>logout\<close> is dropped.\<close>

definition handleSessionTimeout :: "env \<Rightarrow> session \<Rightarrow> session" where
  "handleSessionTimeout e s = snd (logout e s)"

section \<open>The countdown's arguments\<close>

record timeout_args =
  timeoutInMinutes :: nat
  warningInSeconds :: nat
  onTimeout :: "env \<Rightarrow> session \<Rightarrow> session"
  isAuthenticatedArg :: bool

text \<open>Lines 166 to 171: what every render passes to \<^verbatim>\<open>useSessionTimeout\<close>.\<close>

definition useSessionTimeout_args :: "session \<Rightarrow> timeout_args" where
  "useSessionTimeout_args s =
     \<lparr>timeoutInMinutes = getSessionTimeout (store s),
      warningInSeconds = 30,
      onTimeout = handleSessionTimeout,
      isAuthenticatedArg = js_truthy (user s)\<rparr>"

text \<open>Modelled from the spec: the hook \<^verbatim>\<open>useSessionTimeout\<close> of
  \<^verbatim>\<open>@/hooks/useSessionTimeout\<close> is absent from the sources. That a countdown is
  armed when the session is authenticated: section 2, "Once authenticated, the
  Countdown Timer is armed with a duration chosen from the remember me flag", and
  section 4.2, where the transition to Authenticated arms a countdown and a successful
  \<^verbatim>\<open>login\<close> "sets Session to Authenticated, arms the countdown". That none is armed
  otherwise: section 3, one live countdown per authenticated session, destroyed on
  logout. The hook learns of the session through its argument \<^verbatim>\<open>isAuthenticated\<close>
  alone, so it arms a countdown when that argument is true, and only then.\<close>

definition arms_countdown :: "timeout_args \<Rightarrow> bool" where
  "arms_countdown a = isAuthenticatedArg a"

section \<open>refreshUser\<close>

text \<open>
  Lines 209 to 224: what \<^verbatim>\<open>refreshUser\<close> does once the request of line 200 has
  settled. A rejected request, a status that is not ok, a body that is not JSON and a
  body that is \<^verbatim>\<open>null\<close> (the read \<^verbatim>\<open>data.details\<close> throws) all end in the
  handler of line 221.
\<close>

definition refreshUser_settled :: "env \<Rightarrow> fetch_outcome \<Rightarrow> session \<Rightarrow> session" where
  "refreshUser_settled e outcome s =
     (case outcome of
        NetworkError \<Rightarrow> setUserState JNull s
      | Response r \<Rightarrow>
          if status r = 401 then snd (logout e s)
          else if \<not> response_ok r then setUserState JNull s
          else (case body r of
                  None \<Rightarrow> setUserState JNull s
                | Some data \<Rightarrow>
                    if js_nullish data then setUserState JNull s
                    else
                      let userData = js_or_null (js_opt_index0 (js_prop data ''details''))
                      in setUserState userData s))"

text \<open>
  Line 193: \<^verbatim>\<open>storedUserId ? JSON.parse(storedUserId) : null\<close>; \<open>None\<close> when
  \<^verbatim>\<open>JSON.parse\<close> throws.
\<close>

definition stored_user_id :: "env \<Rightarrow> token_store \<Rightarrow> jsval option" where
  "stored_user_id e st =
     (case user_id_item st of
        None \<Rightarrow> Some JNull
      | Some raw \<Rightarrow> if raw = [] then Some JNull else json_parse e raw)"

text \<open>
  A call that has returned, or that is suspended at the \<^verbatim>\<open>await\<close> of the
  fetch-user request of line 200, in the state it has reached: until the request
  settles, other calls of the provider can run.
\<close>

datatype progress = Done session | Awaiting request session

text \<open>Lines 174 to 207: \<^verbatim>\<open>refreshUser\<close> up to its return or to the request.\<close>

definition refreshUser_begin :: "env \<Rightarrow> session \<Rightarrow> progress" where
  "refreshUser_begin e s =
     (if \<not> window_defined e then Done s
      else
        (case getToken (store s) of
           None \<Rightarrow> Done (setUserState JNull s)
         | Some t \<Rightarrow>
             if t = [] then Done (setUserState JNull s)
             else
               let storedUser = getUserFromStorage (store s)
               in if js_truthy storedUser then Done (setUserState storedUser s)
                  else
                    (case stored_user_id e (store s) of
                       None \<Rightarrow> Done (setUserState JNull s)
                     | Some userId \<Rightarrow>
                         (case api_url e of
                            None \<Rightarrow> Done (setUserState JNull s)
                          | Some url \<Rightarrow>
                              if \<not> js_truthy userId \<or> url = []
                              then Done (setUserState JNull s)
                              else
                                let req = GetUserRequest url userId t
                                in Awaiting req (step (Fetch req) s)))))"

text \<open>Lines 173 to 225, with the answer of the transport to the request.\<close>

definition refreshUser :: "env \<Rightarrow> session \<Rightarrow> session" where
  "refreshUser e s =
     (case refreshUser_begin e s of
        Done s' \<Rightarrow> s'
      | Awaiting req s' \<Rightarrow> refreshUser_settled e (fetch e req) s')"

section \<open>The reconciliation at mount\<close>

text \<open>
  \<^verbatim>\<open>checkAuth\<close>, lines 81 to 101, up to its end or to the request that
  \<^verbatim>\<open>refreshUser\<close> waits for. The early return of line 91 is inside the
  \<^verbatim>\<open>try\<close>, so the \<^verbatim>\<open>finally\<close> of line 98 runs after it and sets
  \<^verbatim>\<open>loading\<close> a second time. The handler of line 95 has nothing to catch here:
  \<^verbatim>\<open>refreshUser\<close> handles its own errors and \<^verbatim>\<open>isAuthenticated\<close> is a read.
\<close>

definition checkAuth_begin :: "env \<Rightarrow> session \<Rightarrow> progress" where
  "checkAuth_begin e s =
     (if \<not> window_defined e \<or> \<not> mounted s then Done s
      else
        let s1 = setLoading True s
        in if \<not> isAuthenticated (store s1)
           then Done (setLoading False (setLoading False (setUserState JNull s1)))
           else (case refreshUser_begin e s1 of
                   Done s' \<Rightarrow> Done (setLoading False s')
                 | Awaiting req s' \<Rightarrow> Awaiting req s'))"

text \<open>The rest of \<^verbatim>\<open>checkAuth\<close> once the request has settled: the rest of
  \<^verbatim>\<open>refreshUser\<close>, then the \<^verbatim>\<open>finally\<close> of line 98.\<close>

definition checkAuth_settled :: "env \<Rightarrow> fetch_outcome \<Rightarrow> session \<Rightarrow> session" where
  "checkAuth_settled e outcome s = setLoading False (refreshUser_settled e outcome s)"

text \<open>\<^verbatim>\<open>checkAuth\<close> with nothing else running while it waits.\<close>

definition checkAuth :: "env \<Rightarrow> session \<Rightarrow> session" where
  "checkAuth e s =
     (case checkAuth_begin e s of
        Done s' \<Rightarrow> s'
      | Awaiting req s' \<Rightarrow> checkAuth_settled e (fetch e req) s')"

text \<open>
  The two effects of the mount: line 76 sets \<^verbatim>\<open>mounted\<close>, and the effect of lines
  80 to 106 then runs \<^verbatim>\<open>checkAuth\<close> once \<^verbatim>\<open>mounted\<close> holds.
\<close>

definition auth_effect :: "env \<Rightarrow> session \<Rightarrow> session" where
  "auth_effect e s = (if mounted s then checkAuth e s else s)"

definition mount :: "env \<Rightarrow> token_store \<Rightarrow> session" where
  "mount e st = auth_effect e (setMounted True (initial_session st))"

section \<open>login\<close>

text \<open>
  Lines 227 to 252. The third parameter has the default \<^verbatim>\<open>false\<close>: \<open>None\<close> is a
  call that leaves it out. A rejection of \<^verbatim>\<open>loginUser\<close> is logged and thrown again
  (line 250). The navigation is scheduled 100 ms later; its target is fixed when it
  is scheduled, \<^verbatim>\<open>data\<close> being a constant.
\<close>

definition login ::
  "env \<Rightarrow> string \<Rightarrow> string \<Rightarrow> bool option \<Rightarrow> session \<Rightarrow> (js_error + unit) \<times> session"
where
  "login e email password rememberMeArg s =
     (let rememberMe = (case rememberMeArg of None \<Rightarrow> False | Some b \<Rightarrow> b);
          s0 = step (CallLoginUser email password rememberMe) s
      in case loginUser e email password rememberMe (store s0) of
           Inl err \<Rightarrow> (Inl err, s0)
         | Inr (d, st) \<Rightarrow>
             let s1 = setStore st s0;
                 s2 = setUserState (ld_user d) s1;
                 info = token_expiration_info e (store s2);
                 s3 = setTokenInfo info s2;
                 route = (if js_opt_prop (ld_user d) ''user_role'' = JStr ''admin''
                          then ''/admin'' else ''/dashboard'')
             in (Inr (), step (SetTimeoutPush 100 route) s3))"

section \<open>Reading a call's log\<close>

text \<open>The events a call appended, given the state before and the state after.\<close>

definition new_events :: "session \<Rightarrow> session \<Rightarrow> event list" where
  "new_events s s' = drop (length (events s)) (events s')"

text \<open>
  The outcomes of the request of line 200 that resolve no identity without being a
  401: the request rejects, the status is not ok, the body is not JSON, the body is
  \<^verbatim>\<open>null\<close>, or \<^verbatim>\<open>data.details?.[0]\<close> is falsy.
\<close>

definition identity_unresolved :: "fetch_outcome \<Rightarrow> bool" where
  "identity_unresolved outcome =
     (case outcome of
        NetworkError \<Rightarrow> True
      | Response r \<Rightarrow>
          status r \<noteq> 401 \<and>
          (\<not> response_ok r \<or>
           (case body r of
              None \<Rightarrow> True
            | Some data \<Rightarrow>
                js_nullish data \<or> \<not> js_truthy (js_opt_index0 (js_prop data ''details'')))))"



section \<open>Concrete environments and stores\<close>

text \<open>A browser whose network is down and whose identity service rejects every login.\<close>

definition env_offline :: env where
  "env_offline =
     \<lparr>window_defined = True, api_url = Some ''https://api.example'',
      json_parse = (\<lambda>raw. if raw = ''42'' then Some (JNum 42) else None),
      fetch = (\<lambda>r. NetworkError),
      identity_login = (\<lambda>em pw rm. Inl (Error ''Invalid credentials'')),
      token_expiration_info = (\<lambda>st. JNull),
      cleanup_fault = None\<rparr>"

text \<open>The same browser with a service that answers every request alike.\<close>

definition env_status :: "nat \<Rightarrow> jsval option \<Rightarrow> env" where
  "env_status code b = env_offline\<lparr>fetch := (\<lambda>r. Response \<lparr>status = code, body = b\<rparr>)\<rparr>"

text \<open>The same browser with a service that finds the user.\<close>

definition env_found :: env where
  "env_found =
     env_status 200 (Some (JObj [(''details'', JArr [JObj [(''id'', JNum 7)]])]))"

text \<open>The same browser with an identity service that accepts every login.\<close>

definition env_accepting :: env where
  "env_accepting =
     env_offline\<lparr>identity_login :=
       (\<lambda>em pw rm. Inr \<lparr>ld_user = JObj [(''id'', JNum 7), (''email'', JStr em),
                                         (''user_role'', JStr ''admin'')],
                         ld_token = ''fresh''\<rparr>)\<rparr>"

definition store_signed_in :: token_store where
  "store_signed_in =
     \<lparr>token = Some ''tok'', remember_me = False,
      cached_user = JObj [(''id'', JNum 7), (''email'', JStr ''a@b.c'')],
      user_id_item = Some ''42''\<rparr>"

definition store_no_cache :: token_store where
  "store_no_cache =
     \<lparr>token = Some ''tok'', remember_me = False, cached_user = JNull,
      user_id_item = Some ''42''\<rparr>"

definition store_empty :: token_store where
  "store_empty =
     \<lparr>token = None, remember_me = True, cached_user = JNull, user_id_item = None\<rparr>"


section \<open>Facts about the operations\<close>

lemmas setters =
  setUserState_def setLoading_def setTokenInfo_def setMounted_def setStore_def step_def

lemmas examples =
  env_offline_def env_status_def env_found_def env_accepting_def store_signed_in_def
  store_no_cache_def store_empty_def

subsection \<open>The states of a log\<close>



subsection \<open>logout\<close>

lemma logout_notify_fetch_irrelevant:
  "logout_notify (e\<lparr>fetch := f\<rparr>) s = logout_notify e s"
  by (simp add: logout_notify_def split: option.splits fetch_outcome.splits)

lemma logout_notify_fields:
  "user (logout_notify e s) = user s"
  "store (logout_notify e s) = store s"
  "loading (logout_notify e s) = loading s"
  "tokenInfo (logout_notify e s) = tokenInfo s"
  by (simp_all add: logout_notify_def step_def split: option.splits fetch_outcome.splits)

lemma logout_notify_no_token:
  "\<not> str_truthy (getToken (store s)) \<Longrightarrow> logout_notify e s = s"
  by (simp add: logout_notify_def str_truthy_def split: option.splits)

lemma logout_clean:
  "cleanup_fault e = None \<Longrightarrow>
   logout e s =
     (True, step (RouterPush ''/login'') (setTokenInfo JNull (setUserState JNull
        (setStore (removeUser (removeToken (store s)))
           (setStore (removeToken (store s)) (logout_notify e s))))))"
  by (simp add: logout_def Let_def setters logout_notify_fields)

lemma logout_clears:
  assumes "cleanup_fault e \<noteq> Some StepRemoveToken" "cleanup_fault e \<noteq> Some StepRemoveUser"
  shows "user (snd (logout e s)) = JNull"
    and "getToken (store (snd (logout e s))) = None"
    and "getUserFromStorage (store (snd (logout e s))) = JNull"
  using assms
  by (simp_all add: logout_def Let_def setters getToken_def getUserFromStorage_def
        removeToken_def removeUser_def)

subsection \<open>refreshUser and the mount\<close>

lemma refreshUser_cached:
  assumes "window_defined e" "str_truthy (getToken (store s))"
    "js_truthy (getUserFromStorage (store s))"
  shows "refreshUser e s = setUserState (getUserFromStorage (store s)) s"
  using assms
  by (simp add: refreshUser_def refreshUser_begin_def str_truthy_def Let_def
        split: option.splits)

lemma refreshUser_fetches:
  assumes "window_defined e" "getToken (store s) = Some t" "t \<noteq> []"
    "\<not> js_truthy (getUserFromStorage (store s))"
    "stored_user_id e (store s) = Some uid" "js_truthy uid"
    "api_url e = Some url" "url \<noteq> []"
  shows "refreshUser e s =
     refreshUser_settled e (fetch e (GetUserRequest url uid t))
       (step (Fetch (GetUserRequest url uid t)) s)"
  using assms by (simp add: refreshUser_def refreshUser_begin_def Let_def)

lemma refreshUser_settled_unresolved:
  "identity_unresolved outcome \<Longrightarrow> refreshUser_settled e outcome s = setUserState JNull s"
  by (auto simp: identity_unresolved_def refreshUser_settled_def js_or_null_def Let_def
           split: fetch_outcome.splits option.splits)

lemma mount_unfold:
  "window_defined e \<Longrightarrow>
   mount e st =
     (let s1 = setLoading True (setMounted True (initial_session st))
      in if \<not> isAuthenticated st
         then setLoading False (setLoading False (setUserState JNull s1))
         else setLoading False (refreshUser e s1))"
  by (simp add: mount_def auth_effect_def checkAuth_def checkAuth_begin_def checkAuth_settled_def
        refreshUser_def Let_def setters initial_session_def split: progress.splits)

lemma mount_no_token:
  assumes "window_defined e" "\<not> str_truthy (getToken st)"
  shows "mount e st =
     setLoading False (setLoading False (setUserState JNull
       (setLoading True (setMounted True (initial_session st)))))"
  using assms by (simp add: mount_unfold Let_def isAuthenticated_def)

subsection \<open>The writes of the mount\<close>






section \<open>The claims\<close>

text \<open>
  C1. For every call to \<^verbatim>\<open>logout\<close> the network notification is best-effort. Whatever
  the transport answers, also a rejection, the call returns the same value and ends
  in the same state. When no step of the local cleanup throws, it returns
  \<^verbatim>\<open>true\<close> with the token and the cached user removed from the Token Store and the
  current user \<^verbatim>\<open>null\<close>. It returns \<^verbatim>\<open>false\<close> only when a step of the local
  cleanup throws.
\<close>

theorem logout_notification_best_effort:
  "logout (e\<lparr>fetch := f\<rparr>) s = logout e s
   \<and> (cleanup_fault e = None \<longrightarrow>
         fst (logout e s)
       \<and> getToken (store (snd (logout e s))) = None
       \<and> getUserFromStorage (store (snd (logout e s))) = JNull
       \<and> user (snd (logout e s)) = JNull)
   \<and> (\<not> fst (logout e s) \<longrightarrow> cleanup_fault e \<noteq> None)"
proof (intro conjI impI)
  show "logout (e\<lparr>fetch := f\<rparr>) s = logout e s"
    by (simp add: logout_def Let_def logout_notify_fetch_irrelevant)
next
  assume ok: "cleanup_fault e = None"
  show "fst (logout e s)"
    by (simp add: logout_clean [OF ok])
  show "getToken (store (snd (logout e s))) = None"
    by (simp add: logout_clears ok)
  show "getUserFromStorage (store (snd (logout e s))) = JNull"
    by (simp add: logout_clears ok)
  show "user (snd (logout e s)) = JNull"
    by (simp add: logout_clears ok)
next
  assume bad: "\<not> fst (logout e s)"
  show "cleanup_fault e \<noteq> None"
  proof
    assume "cleanup_fault e = None"
    then have "fst (logout e s)" by (simp add: logout_clean)
    with bad show False by simp
  qed
qed

theorem logout_notification_best_effort_witness:
  "fetch env_offline (LogoutRequest (api_url env_offline) ''tok'') = NetworkError
   \<and> getToken store_signed_in = Some ''tok''
   \<and> cleanup_fault env_offline = None
   \<and> fst (logout env_offline (initial_session store_signed_in))
   \<and> getToken (store (snd (logout env_offline (initial_session store_signed_in)))) = None
   \<and> getUserFromStorage (store (snd (logout env_offline (initial_session store_signed_in)))) = JNull
   \<and> user (snd (logout env_offline (initial_session store_signed_in))) = JNull
   \<and> logout (env_status 200 None) (initial_session store_signed_in)
       = logout env_offline (initial_session store_signed_in)
   \<and> \<not> fst (logout (env_offline\<lparr>cleanup_fault := Some StepRemoveUser\<rparr>)
               (initial_session store_signed_in))
   \<and> cleanup_fault (env_offline\<lparr>cleanup_fault := Some StepRemoveUser\<rparr>) \<noteq> None"
proof -
  let ?s = "initial_session store_signed_in"
  let ?bad = "env_offline\<lparr>cleanup_fault := Some StepRemoveUser\<rparr>"
  have ok: "cleanup_fault env_offline = None"
    by (simp add: env_offline_def)
  have bad: "\<not> fst (logout ?bad ?s)"
    by (simp add: logout_def Let_def)
  have upd: "env_status 200 None = env_offline\<lparr>fetch := fetch (env_status 200 None)\<rparr>"
    by (simp add: env_status_def)
  from logout_notification_best_effort
         [where e = env_offline and f = "fetch (env_status 200 None)" and s = ?s] ok
       logout_notification_best_effort
         [where e = ?bad and f = "fetch env_offline" and s = ?s] bad upd
  show ?thesis
    by (simp add: env_offline_def store_signed_in_def getToken_def)
qed

text \<open>
  C2. In every state in which the Token Store holds a token and a cached user record,
  \<^verbatim>\<open>refreshUser\<close> sets the current user from the cached record and does nothing
  else: its only event is that write, so no request is sent. The reconciliation at
  mount therefore ends with that user, with \<^verbatim>\<open>loading\<close> false and with a log that
  holds no request.
\<close>

theorem refreshUser_adopts_cached_user:
  assumes "window_defined e"
    and "str_truthy (getToken st)"
    and "js_truthy (getUserFromStorage st)"
  shows "(store s = st \<longrightarrow>
            user (refreshUser e s) = getUserFromStorage st
          \<and> new_events s (refreshUser e s) = [SetUserState (getUserFromStorage st)])
       \<and> user (mount e st) = getUserFromStorage st
       \<and> loading (mount e st) = False
       \<and> events (mount e st) =
           [SetMounted True, SetLoading True, SetUserState (getUserFromStorage st),
            SetLoading False]"
proof (intro conjI impI)
  assume st: "store s = st"
  with assms have R: "refreshUser e s = setUserState (getUserFromStorage st) s"
    using refreshUser_cached [of e s] by simp
  show "user (refreshUser e s) = getUserFromStorage st"
    by (simp add: R setters)
  show "new_events s (refreshUser e s) = [SetUserState (getUserFromStorage st)]"
    by (simp add: R setters new_events_def)
next
  let ?s1 = "setLoading True (setMounted True (initial_session st))"
  have st1: "store ?s1 = st"
    by (simp add: setters initial_session_def)
  have R: "refreshUser e ?s1 = setUserState (getUserFromStorage st) ?s1"
    using refreshUser_cached [of e ?s1] assms st1 by simp
  have M: "mount e st = setLoading False (setUserState (getUserFromStorage st) ?s1)"
    using assms by (simp add: mount_unfold Let_def isAuthenticated_def R)
  show "user (mount e st) = getUserFromStorage st"
    by (simp add: M setters)
  show "loading (mount e st) = False"
    by (simp add: M setters)
  show "events (mount e st) =
          [SetMounted True, SetLoading True, SetUserState (getUserFromStorage st),
           SetLoading False]"
    by (simp add: M setters initial_session_def)
qed

theorem refreshUser_adopts_cached_user_witness:
  "window_defined env_offline
   \<and> str_truthy (getToken store_signed_in)
   \<and> js_truthy (getUserFromStorage store_signed_in)
   \<and> user (refreshUser env_offline (initial_session store_signed_in))
       = JObj [(''id'', JNum 7), (''email'', JStr ''a@b.c'')]
   \<and> new_events (initial_session store_signed_in)
        (refreshUser env_offline (initial_session store_signed_in))
       = [SetUserState (JObj [(''id'', JNum 7), (''email'', JStr ''a@b.c'')])]
   \<and> user (mount env_offline store_signed_in)
       = JObj [(''id'', JNum 7), (''email'', JStr ''a@b.c'')]
   \<and> loading (mount env_offline store_signed_in) = False
   \<and> events (mount env_offline store_signed_in)
       = [SetMounted True, SetLoading True,
          SetUserState (JObj [(''id'', JNum 7), (''email'', JStr ''a@b.c'')]),
          SetLoading False]"
proof -
  have h1: "window_defined env_offline"
    by (simp add: env_offline_def)
  have h2: "str_truthy (getToken store_signed_in)"
    by (simp add: store_signed_in_def getToken_def str_truthy_def)
  have h3: "js_truthy (getUserFromStorage store_signed_in)"
    by (simp add: store_signed_in_def getUserFromStorage_def)
  have h4: "store (initial_session store_signed_in) = store_signed_in"
    by (simp add: initial_session_def)
  have cu: "getUserFromStorage store_signed_in
              = JObj [(''id'', JNum 7), (''email'', JStr ''a@b.c'')]"
    by (simp add: store_signed_in_def getUserFromStorage_def)
  from refreshUser_adopts_cached_user
         [OF h1 h2 h3, where s = "initial_session store_signed_in"] h1 h2 h3 h4
  show ?thesis
    by (simp add: cu)
qed

text \<open>
  C3. For every call to \<^verbatim>\<open>refreshUser\<close> that sends the fetch-user request and
  gets a response with status 401, the rest of the call is the logout sequence, run
  on the state in which the request was sent. When the two clearing steps of that
  sequence do not throw, the current user ends \<^verbatim>\<open>null\<close> and the token and the
  cached user are gone from the Token Store.
\<close>

theorem refreshUser_401_runs_logout:
  assumes "window_defined e"
    and "getToken (store s) = Some t" and "t \<noteq> []"
    and "\<not> js_truthy (getUserFromStorage (store s))"
    and "stored_user_id e (store s) = Some uid" and "js_truthy uid"
    and "api_url e = Some url" and "url \<noteq> []"
    and "fetch e (GetUserRequest url uid t) = Response r" and "status r = 401"
  shows "refreshUser e s = snd (logout e (step (Fetch (GetUserRequest url uid t)) s))
       \<and> (cleanup_fault e \<noteq> Some StepRemoveToken \<and> cleanup_fault e \<noteq> Some StepRemoveUser \<longrightarrow>
             user (refreshUser e s) = JNull
           \<and> getToken (store (refreshUser e s)) = None
           \<and> getUserFromStorage (store (refreshUser e s)) = JNull)"
proof -
  have R: "refreshUser e s = snd (logout e (step (Fetch (GetUserRequest url uid t)) s))"
    using assms by (simp add: refreshUser_fetches refreshUser_settled_def)
  show ?thesis
    unfolding R by (simp add: logout_clears)
qed

theorem refreshUser_401_runs_logout_witness:
  "window_defined (env_status 401 None)
   \<and> getToken (store (initial_session store_no_cache)) = Some ''tok''
   \<and> \<not> js_truthy (getUserFromStorage (store (initial_session store_no_cache)))
   \<and> stored_user_id (env_status 401 None) (store (initial_session store_no_cache))
       = Some (JNum 42)
   \<and> api_url (env_status 401 None) = Some ''https://api.example''
   \<and> fetch (env_status 401 None) (GetUserRequest ''https://api.example'' (JNum 42) ''tok'')
       = Response \<lparr>status = 401, body = None\<rparr>
   \<and> cleanup_fault (env_status 401 None) = None
   \<and> user (refreshUser (env_status 401 None) (initial_session store_no_cache)) = JNull
   \<and> getToken (store (refreshUser (env_status 401 None) (initial_session store_no_cache)))
       = None
   \<and> getUserFromStorage
        (store (refreshUser (env_status 401 None) (initial_session store_no_cache))) = JNull"
proof -
  let ?e = "env_status 401 None"
  let ?s = "initial_session store_no_cache"
  have h1: "window_defined ?e"
    by (simp add: examples)
  have h2: "getToken (store ?s) = Some ''tok''"
    by (simp add: examples initial_session_def getToken_def)
  have h3: "''tok'' \<noteq> []"
    by simp
  have h4: "\<not> js_truthy (getUserFromStorage (store ?s))"
    by (simp add: examples initial_session_def getUserFromStorage_def)
  have h5: "stored_user_id ?e (store ?s) = Some (JNum 42)"
    by (simp add: examples initial_session_def stored_user_id_def)
  have h6: "js_truthy (JNum 42)"
    by simp
  have h7: "api_url ?e = Some ''https://api.example''"
    by (simp add: examples)
  have h8: "''https://api.example'' \<noteq> []"
    by simp
  have h9: "fetch ?e (GetUserRequest ''https://api.example'' (JNum 42) ''tok'')
              = Response \<lparr>status = 401, body = None\<rparr>"
    by (simp add: examples)
  have h10: "status \<lparr>status = 401, body = None\<rparr> = 401"
    by simp
  have ok: "cleanup_fault ?e = None"
    by (simp add: examples)
  have clears: "cleanup_fault ?e \<noteq> Some StepRemoveToken \<and> cleanup_fault ?e \<noteq> Some StepRemoveUser"
    by (simp add: ok)
  from refreshUser_401_runs_logout [OF h1 h2 h3 h4 h5 h6 h7 h8 h9 h10]
       h1 h2 h4 h5 h7 h9 ok clears
  show ?thesis
    by blast
qed

text \<open>
  C4, as the code has it. When the Token Store holds a token and no cached user, and
  the fetch-user request resolves no identity without being a 401 (it rejects, its
  status is not ok, its body is not JSON, or the body yields no user record), the
  reconciliation at mount ends with the current user \<^verbatim>\<open>null\<close> and
  \<^verbatim>\<open>loading\<close> false, and the Token Store is left as it was: the token stays.
  \<^verbatim>\<open>refreshUser\<close> alone does the same from any state over that store.
\<close>

theorem unresolved_identity_clears_user_only:
  assumes "window_defined e"
    and "getToken st = Some t" and "t \<noteq> []"
    and "\<not> js_truthy (getUserFromStorage st)"
    and "stored_user_id e st = Some uid" and "js_truthy uid"
    and "api_url e = Some url" and "url \<noteq> []"
    and "identity_unresolved (fetch e (GetUserRequest url uid t))"
  shows "user (mount e st) = JNull
       \<and> loading (mount e st) = False
       \<and> store (mount e st) = st
       \<and> (store s = st \<longrightarrow> user (refreshUser e s) = JNull \<and> store (refreshUser e s) = st)"
proof -
  have R: "refreshUser e s' = setUserState JNull (step (Fetch (GetUserRequest url uid t)) s')"
    if "store s' = st" for s'
    using assms that refreshUser_fetches [of e s' t uid url]
    by (simp add: refreshUser_settled_unresolved)
  let ?s1 = "setLoading True (setMounted True (initial_session st))"
  have st1: "store ?s1 = st"
    by (simp add: setters initial_session_def)
  have M: "mount e st =
             setLoading False (setUserState JNull (step (Fetch (GetUserRequest url uid t)) ?s1))"
    using assms by (simp add: mount_unfold Let_def isAuthenticated_def str_truthy_def R [OF st1])
  show ?thesis
    by (simp add: M R setters initial_session_def)
qed

theorem unresolved_identity_clears_user_only_witness:
  "window_defined env_offline
   \<and> getToken store_no_cache = Some ''tok''
   \<and> \<not> js_truthy (getUserFromStorage store_no_cache)
   \<and> stored_user_id env_offline store_no_cache = Some (JNum 42)
   \<and> api_url env_offline = Some ''https://api.example''
   \<and> identity_unresolved
        (fetch env_offline (GetUserRequest ''https://api.example'' (JNum 42) ''tok''))
   \<and> user (mount env_offline store_no_cache) = JNull
   \<and> loading (mount env_offline store_no_cache) = False
   \<and> store (mount env_offline store_no_cache) = store_no_cache
   \<and> user (refreshUser env_offline (initial_session store_no_cache)) = JNull
   \<and> store (refreshUser env_offline (initial_session store_no_cache)) = store_no_cache"
proof -
  have h1: "window_defined env_offline"
    by (simp add: examples)
  have h2: "getToken store_no_cache = Some ''tok''"
    by (simp add: examples getToken_def)
  have h3: "''tok'' \<noteq> []"
    by simp
  have h4: "\<not> js_truthy (getUserFromStorage store_no_cache)"
    by (simp add: examples getUserFromStorage_def)
  have h5: "stored_user_id env_offline store_no_cache = Some (JNum 42)"
    by (simp add: examples stored_user_id_def)
  have h6: "js_truthy (JNum 42)"
    by simp
  have h7: "api_url env_offline = Some ''https://api.example''"
    by (simp add: examples)
  have h8: "''https://api.example'' \<noteq> []"
    by simp
  have h9: "identity_unresolved
              (fetch env_offline (GetUserRequest ''https://api.example'' (JNum 42) ''tok''))"
    by (simp add: examples identity_unresolved_def)
  have h10: "store (initial_session store_no_cache) = store_no_cache"
    by (simp add: initial_session_def)
  from unresolved_identity_clears_user_only
         [OF h1 h2 h3 h4 h5 h6 h7 h8 h9, where s = "initial_session store_no_cache"]
       h1 h2 h4 h5 h7 h9 h10
  show ?thesis
    by simp
qed

text \<open>
  C4, as it is stated, fails. With a token, no cached user and a fetch-user request
  answered by status 500, the mount ends with the current user \<^verbatim>\<open>null\<close> and the
  token still in the Token Store; the same with status 200 and a body whose
  \<^verbatim>\<open>details\<close> is empty.
\<close>

theorem unresolved_identity_keeps_token:
  "getToken store_no_cache = Some ''tok''
   \<and> fetch (env_status 500 None) (GetUserRequest ''https://api.example'' (JNum 42) ''tok'')
       = Response \<lparr>status = 500, body = None\<rparr>
   \<and> user (mount (env_status 500 None) store_no_cache) = JNull
   \<and> getToken (store (mount (env_status 500 None) store_no_cache)) = Some ''tok''
   \<and> fetch (env_status 200 (Some (JObj [(''details'', JArr [])])))
        (GetUserRequest ''https://api.example'' (JNum 42) ''tok'')
       = Response \<lparr>status = 200, body = Some (JObj [(''details'', JArr [])])\<rparr>
   \<and> user (mount (env_status 200 (Some (JObj [(''details'', JArr [])]))) store_no_cache) = JNull
   \<and> getToken (store (mount (env_status 200 (Some (JObj [(''details'', JArr [])])))
                        store_no_cache))
       = Some ''tok''"
  by (simp add: examples getToken_def mount_def auth_effect_def checkAuth_def
        checkAuth_begin_def checkAuth_settled_def refreshUser_begin_def
        refreshUser_settled_def stored_user_id_def isAuthenticated_def str_truthy_def
        getUserFromStorage_def response_ok_def js_nullish_def js_or_null_def
        initial_session_def Let_def setters)

text \<open>
  C5. For every session the countdown duration passed to the timer is
  14 * 24 * 60 = 20160 minutes when the persisted remember-me flag is true and
  2 * 60 = 120 minutes when it is false, and the warning window passed is 30 seconds:
  nothing else of the state enters.
\<close>

theorem session_timeout_constants:
  "timeoutInMinutes (useSessionTimeout_args s)
     = (if getRememberMe (store s) then 20160 else 120)
   \<and> getSessionTimeout (store s) = (if getRememberMe (store s) then 14 * 24 * 60 else 2 * 60)
   \<and> warningInSeconds (useSessionTimeout_args s) = 30"
  by (simp add: useSessionTimeout_args_def getSessionTimeout_def)

theorem session_timeout_constants_witness:
  "getRememberMe store_empty
   \<and> timeoutInMinutes (useSessionTimeout_args (initial_session store_empty)) = 20160
   \<and> \<not> getRememberMe store_signed_in
   \<and> timeoutInMinutes (useSessionTimeout_args (initial_session store_signed_in)) = 120
   \<and> warningInSeconds (useSessionTimeout_args (initial_session store_signed_in)) = 30"
  using session_timeout_constants [of "initial_session store_empty"]
        session_timeout_constants [of "initial_session store_signed_in"]
  by (simp add: examples initial_session_def getRememberMe_def)

text \<open>
  C6. For every call to \<^verbatim>\<open>login\<close> that the identity service rejects, the call
  fails with that very error, and nothing of the session changes: the current user
  (so a \<^verbatim>\<open>null\<close> user stays \<^verbatim>\<open>null\<close>), \<^verbatim>\<open>loading\<close>, the token info and the
  Token Store are as before, and the only event is the call of \<^verbatim>\<open>loginUser\<close>, so
  no navigation is pushed or scheduled.
\<close>

theorem login_rejected_changes_nothing:
  assumes "identity_login e email password (case rm of None \<Rightarrow> False | Some b \<Rightarrow> b) = Inl err"
  shows "fst (login e email password rm s) = Inl err
       \<and> user (snd (login e email password rm s)) = user s
       \<and> loading (snd (login e email password rm s)) = loading s
       \<and> tokenInfo (snd (login e email password rm s)) = tokenInfo s
       \<and> store (snd (login e email password rm s)) = store s
       \<and> new_events s (snd (login e email password rm s))
           = [CallLoginUser email password (case rm of None \<Rightarrow> False | Some b \<Rightarrow> b)]"
  using assms by (simp add: login_def loginUser_def Let_def step_def new_events_def)

theorem login_rejected_changes_nothing_witness:
  "identity_login env_offline ''a@b.c'' ''wrong'' True = Inl (Error ''Invalid credentials'')
   \<and> user (initial_session store_empty) = JNull
   \<and> fst (login env_offline ''a@b.c'' ''wrong'' (Some True) (initial_session store_empty))
       = Inl (Error ''Invalid credentials'')
   \<and> user (snd (login env_offline ''a@b.c'' ''wrong'' (Some True) (initial_session store_empty)))
       = JNull
   \<and> store (snd (login env_offline ''a@b.c'' ''wrong'' (Some True) (initial_session store_empty)))
       = store_empty
   \<and> new_events (initial_session store_empty)
        (snd (login env_offline ''a@b.c'' ''wrong'' (Some True) (initial_session store_empty)))
       = [CallLoginUser ''a@b.c'' ''wrong'' True]"
proof -
  have h: "identity_login env_offline ''a@b.c'' ''wrong''
             (case Some True of None \<Rightarrow> False | Some b \<Rightarrow> b) = Inl (Error ''Invalid credentials'')"
    by (simp add: examples)
  from login_rejected_changes_nothing [OF h, of "initial_session store_empty"] h
  show ?thesis
    by (simp add: initial_session_def)
qed




text \<open>
  C8. When the Token Store holds no token at mount, the reconciliation ends with the
  current user \<^verbatim>\<open>null\<close> and \<^verbatim>\<open>loading\<close> false, and in none of the states it goes
  through, from the initial one to the last, do the arguments passed to the countdown
  arm it.
\<close>

theorem mount_without_token_stays_anonymous:
  assumes "window_defined e" and "\<not> str_truthy (getToken st)"
  shows "user (mount e st) = JNull
       \<and> loading (mount e st) = False
       \<and> last (states_during (initial_session st) (events (mount e st))) = mount e st
       \<and> (\<forall>x \<in> set (states_during (initial_session st) (events (mount e st))).
             \<not> arms_countdown (useSessionTimeout_args x))"
  by (simp add: mount_no_token [OF assms] setters initial_session_def arms_countdown_def
        useSessionTimeout_args_def)

theorem mount_without_token_stays_anonymous_witness:
  "window_defined env_accepting
   \<and> \<not> str_truthy (getToken store_empty)
   \<and> user (mount env_accepting store_empty) = JNull
   \<and> loading (mount env_accepting store_empty) = False
   \<and> list_all (\<lambda>x. \<not> arms_countdown (useSessionTimeout_args x))
        (states_during (initial_session store_empty) (events (mount env_accepting store_empty)))
   \<and> length (states_during (initial_session store_empty)
                (events (mount env_accepting store_empty))) = 6"
proof -
  have h1: "window_defined env_accepting"
    by (simp add: examples)
  have h2: "\<not> str_truthy (getToken store_empty)"
    by (simp add: examples getToken_def str_truthy_def)
  have ev: "events (mount env_accepting store_empty) =
              [SetMounted True, SetLoading True, SetUserState JNull, SetLoading False,
               SetLoading False]"
    by (simp add: mount_no_token [OF h1 h2] setters initial_session_def)
  have len: "length (states_during (initial_session store_empty)
                      (events (mount env_accepting store_empty))) = 6"
    by (simp add: ev)
  from mount_without_token_stays_anonymous [OF h1 h2] h1 h2 len
  show ?thesis
    unfolding list_all_iff by blast
qed

text \<open>
  C9. A call to \<^verbatim>\<open>login\<close> that leaves the third argument out is the call with
  \<^verbatim>\<open>false\<close> in its place: \<^verbatim>\<open>loginUser\<close> is called with the flag \<^verbatim>\<open>false\<close>, and
  when the login succeeds the persisted flag is false and the countdown duration is
  the 2 hours of the short policy.
\<close>

theorem login_rememberMe_defaults_false:
  "login e email password None s = login e email password (Some False) s
   \<and> hd (new_events s (snd (login e email password None s)))
       = CallLoginUser email password False
   \<and> (fst (login e email password None s) = Inr () \<longrightarrow>
         \<not> getRememberMe (store (snd (login e email password None s)))
       \<and> timeoutInMinutes (useSessionTimeout_args (snd (login e email password None s)))
           = 120)"
  by (auto simp: login_def loginUser_def Let_def setters new_events_def getRememberMe_def
        useSessionTimeout_args_def getSessionTimeout_def split: sum.splits)

theorem login_rememberMe_defaults_false_witness:
  "getRememberMe store_empty
   \<and> fst (login env_accepting ''a@b.c'' ''pw'' None (initial_session store_empty)) = Inr ()
   \<and> login env_accepting ''a@b.c'' ''pw'' None (initial_session store_empty)
       = login env_accepting ''a@b.c'' ''pw'' (Some False) (initial_session store_empty)
   \<and> \<not> getRememberMe
          (store (snd (login env_accepting ''a@b.c'' ''pw'' None (initial_session store_empty))))
   \<and> timeoutInMinutes (useSessionTimeout_args
        (snd (login env_accepting ''a@b.c'' ''pw'' None (initial_session store_empty)))) = 120"
proof -
  have ok: "fst (login env_accepting ''a@b.c'' ''pw'' None (initial_session store_empty)) = Inr ()"
    by (simp add: login_def loginUser_def examples Let_def)
  have rm: "getRememberMe store_empty"
    by (simp add: examples getRememberMe_def)
  note T = login_rememberMe_defaults_false
             [of env_accepting "''a@b.c''" "''pw''" "initial_session store_empty"]
  have same: "login env_accepting ''a@b.c'' ''pw'' None (initial_session store_empty)
                = login env_accepting ''a@b.c'' ''pw'' (Some False) (initial_session store_empty)"
    using T by blast
  have short: "\<not> getRememberMe
                 (store (snd (login env_accepting ''a@b.c'' ''pw'' None
                                (initial_session store_empty))))
             \<and> timeoutInMinutes (useSessionTimeout_args
                  (snd (login env_accepting ''a@b.c'' ''pw'' None
                          (initial_session store_empty)))) = 120"
    using T ok by blast
  from short rm ok same show ?thesis
    by blast
qed

text \<open>
  C10. A call to \<^verbatim>\<open>logout\<close> in a state whose Token Store holds no token sends no
  request. When no step of the local cleanup throws, it still removes the token and
  the cached user, sets the current user to \<^verbatim>\<open>null\<close>, pushes the route
  \<^verbatim>\<open>/login\<close> and returns \<^verbatim>\<open>true\<close>.
\<close>

theorem logout_without_token:
  "\<not> str_truthy (getToken (store s)) \<longrightarrow>
     (\<forall>r. Fetch r \<notin> set (new_events s (snd (logout e s))))
     \<and> (cleanup_fault e = None \<longrightarrow>
          fst (logout e s)
          \<and> getToken (store (snd (logout e s))) = None
          \<and> getUserFromStorage (store (snd (logout e s))) = JNull
          \<and> user (snd (logout e s)) = JNull
          \<and> new_events s (snd (logout e s)) =
              [SetStore (removeToken (store s)), SetStore (removeUser (removeToken (store s))),
               SetUserState JNull, SetTokenInfo JNull, RouterPush ''/login''])"
proof (intro impI conjI allI)
  fix r
  assume nt: "\<not> str_truthy (getToken (store s))"
  show "Fetch r \<notin> set (new_events s (snd (logout e s)))"
    by (simp add: logout_def Let_def logout_notify_no_token [OF nt] new_events_def setters)
next
  assume nt: "\<not> str_truthy (getToken (store s))" and ok: "cleanup_fault e = None"
  note L = logout_clean [OF ok] logout_notify_no_token [OF nt]
  show "fst (logout e s)"
    by (simp add: L)
  show "getToken (store (snd (logout e s))) = None"
    by (simp add: logout_clears ok)
  show "getUserFromStorage (store (snd (logout e s))) = JNull"
    by (simp add: logout_clears ok)
  show "user (snd (logout e s)) = JNull"
    by (simp add: logout_clears ok)
  show "new_events s (snd (logout e s)) =
          [SetStore (removeToken (store s)), SetStore (removeUser (removeToken (store s))),
           SetUserState JNull, SetTokenInfo JNull, RouterPush ''/login'']"
    by (simp add: L setters new_events_def)
qed

theorem logout_without_token_witness:
  "\<not> str_truthy (getToken (store (initial_session store_empty)))
   \<and> cleanup_fault env_offline = None
   \<and> fst (logout env_offline (initial_session store_empty))
   \<and> getToken (store (snd (logout env_offline (initial_session store_empty)))) = None
   \<and> getUserFromStorage (store (snd (logout env_offline (initial_session store_empty)))) = JNull
   \<and> user (snd (logout env_offline (initial_session store_empty))) = JNull
   \<and> new_events (initial_session store_empty)
        (snd (logout env_offline (initial_session store_empty)))
       = [SetStore store_empty, SetStore store_empty, SetUserState JNull, SetTokenInfo JNull,
          RouterPush ''/login'']"
proof -
  have nt: "\<not> str_truthy (getToken (store (initial_session store_empty)))"
    by (simp add: examples initial_session_def getToken_def str_truthy_def)
  have ok: "cleanup_fault env_offline = None"
    by (simp add: examples)
  have st: "removeToken (store (initial_session store_empty)) = store_empty"
           "removeUser store_empty = store_empty"
    by (simp_all add: examples initial_session_def removeToken_def removeUser_def)
  from logout_without_token [of "initial_session store_empty" env_offline] nt ok
  show ?thesis
    by (simp add: st)
qed

end
